theory Spec2Isabelle
  imports Main
begin

section \<open>The client application (frontend/src/App.js)\<close>

text \<open>
  The React component \<open>PDFProcessorApp\<close> keeps its state in hooks
  (\<open>useNodesState\<close>, \<open>useEdgesState\<close>, \<open>useState\<close>) and changes it
  through their setters.  The model is explicit state passing: the hook values are the
  fields of a record, every handler is a function from the state before to the state
  after, and the setters of one handler are applied in program order.  What the network
  answers is an argument of the handler.
\<close>

subsection \<open>Data\<close>

text \<open>The values stored in a node's \<open>data\<close> object: \<open>null\<close>, booleans and strings.\<close>

datatype jsval = JNull | JBool bool | JStr string

text \<open>An object literal is a finite map from property names to values.\<close>

type_synonym jsobj = "string \<rightharpoonup> jsval"

record node =
  node_id :: string
  node_type :: string
  position :: "int \<times> int"
  data :: jsobj

record edge =
  edge_id :: string
  source :: string
  target :: string
  animated :: bool
  style :: "string \<times> nat"

text \<open>A \<open>File\<close> of the browser: its name and its MIME type.\<close>

record File =
  file_name :: string
  file_type :: string

record EntitySet =
  names :: "string list"
  dates :: "string list"
  addresses :: "string list"

record Table =
  headers :: "string list"
  rows :: "string list list"

text \<open>The object \<open>transformedResults\<close> that \<open>processPDF\<close> stores in \<open>results\<close>;
  \<open>result_text\<close> is its property \<open>text\<close>, undefined when the response has no
  \<open>extracted_text\<close>.\<close>

record results_obj =
  result_text :: "string option"
  entities :: EntitySet
  tables :: "Table list"

record app_state =
  nodes :: "node list"
  edges :: "edge list"
  selectedFile :: "File option"
  results :: "results_obj option"
  isProcessing :: bool
  error :: "string option"
  apiStatus :: string
  ocrApiStatus :: string

definition initialNodes :: "node list" where
  "initialNodes =
    [\<lparr>node_id = ''pdf'', node_type = ''pdfNode'', position = (0, 100),
       data = [''fileName'' \<mapsto> JNull]\<rparr>,
     \<lparr>node_id = ''processing'', node_type = ''processingNode'', position = (300, 100),
       data = [''status'' \<mapsto> JStr ''idle'']\<rparr>,
     \<lparr>node_id = ''output'', node_type = ''outputNode'', position = (600, 100),
       data = [''hasResults'' \<mapsto> JBool False]\<rparr>]"

definition initialEdges :: "edge list" where
  "initialEdges =
    [\<lparr>edge_id = ''pdf-processing'', source = ''pdf'', target = ''processing'',
       animated = False, style = (''#3b82f6'', 2)\<rparr>,
     \<lparr>edge_id = ''processing-output'', source = ''processing'', target = ''output'',
       animated = False, style = (''#3b82f6'', 2)\<rparr>]"

text \<open>The state of the component when it is mounted: the initial values of the hooks.\<close>

definition initialState :: app_state where
  "initialState =
    \<lparr>nodes = initialNodes, edges = initialEdges, selectedFile = None, results = None,
     isProcessing = False, error = None, apiStatus = ''unknown'',
     ocrApiStatus = ''unknown''\<rparr>"

subsection \<open>Updating one node or one edge\<close>

text \<open>
  \<open>updateNodeData\<close> and \<open>updateEdgeAnimation\<close> hand \<open>setNodes\<close> and \<open>setEdges\<close>
  a function from the old list to the new one; these are the two functions.  The object
  spread \<open>{ ...node.data, ...newData }\<close> is the map \<open>data node ++ newData\<close>: a
  property of \<open>newData\<close> wins, every other property is kept.
\<close>

definition updateNodeData :: "string \<Rightarrow> jsobj \<Rightarrow> node list \<Rightarrow> node list" where
  "updateNodeData nodeId newData nds =
     map (\<lambda>node. if node_id node = nodeId
                  then node\<lparr>data := data node ++ newData\<rparr>
                  else node) nds"

definition updateEdgeAnimation :: "string \<Rightarrow> bool \<Rightarrow> edge list \<Rightarrow> edge list" where
  "updateEdgeAnimation edgeId anim eds =
     map (\<lambda>edge. if edge_id edge = edgeId
                  then edge\<lparr>animated := anim\<rparr>
                  else edge) eds"

subsection \<open>What the network answers\<close>

text \<open>
  A \<open>fetch\<close> either rejects (no connection; the message of the error it throws) or
  resolves to a response: the flag \<open>response.ok\<close>, the status code, and what
  \<open>response.json()\<close> gives, which is the decoded body or the message of the error
  thrown for a body that is not JSON.  Every request is answered in one of these ways:
  a \<open>fetch\<close> that never settles is not modelled.
\<close>

record 'b http_response =
  ok :: bool
  status :: nat
  json :: "string + 'b"

datatype 'b fetch_result = Rejected string | Resolved "'b http_response"

text \<open>The body of \<open>/health\<close>: \<open>{status, ocr_api_status}\<close>; a property that is absent
  or \<open>null\<close> is \<open>None\<close>.\<close>

record health_body =
  health_status :: "string option"
  ocr_api_status :: "string option"

text \<open>
  The body of \<open>/process-pdf\<close>:
  \<open>{success, extracted_text, ocr_result: {entities, tables}, error?}\<close>, and \<open>detail\<close>,
  which the client reads from the body of a response that is not ok.  A failure body
  carries no \<open>extracted_text\<close> and no \<open>ocr_result\<close>, so both are optional.
\<close>

record ocr_result_obj =
  ocr_entities :: EntitySet
  ocr_tables :: "Table list"

record process_body =
  success :: bool
  extracted_text :: "string option"
  ocr_result :: "ocr_result_obj option"
  error_field :: "string option"
  detail :: "string option"

text \<open>A request the client sends: a POST with its URL and the file of the form.\<close>

datatype request = Post string File

definition API_BASE_URL :: string where
  "API_BASE_URL = ''http://localhost:8000''"

text \<open>\<open>x || d\<close> on a string property: \<open>d\<close> when \<open>x\<close> is undefined, \<open>null\<close> or
  the empty string, which are the falsy ones.\<close>

definition js_or :: "string option \<Rightarrow> string \<Rightarrow> string" where
  "js_or x d = (case x of None \<Rightarrow> d | Some v \<Rightarrow> if v = [] then d else v)"

text \<open>The decimal digits of a number, as the template literal prints \<open>response.status\<close>.\<close>

fun show_nat :: "nat \<Rightarrow> string" where
  "show_nat n =
     (if n < 10 then [''0123456789'' ! n]
      else show_nat (n div 10) @ [''0123456789'' ! (n mod 10)])"

text \<open>The message of the \<open>TypeError\<close> that reading \<open>data.ocr_result.entities\<close>
  throws when \<open>data.ocr_result\<close> is undefined (the wording is the engine's).\<close>

definition typeErrorMessage :: string where
  "typeErrorMessage =
     ''Cannot read properties of undefined (reading '' @ [CHR 0x27] @ ''entities''
       @ [CHR 0x27] @ '')''"

subsection \<open>The health check\<close>

text \<open>
  \<open>checkApiHealth\<close>: a response that is ok and decodes sets \<open>apiStatus\<close> to online and
  \<open>ocrApiStatus\<close> to \<open>data.ocr_api_status || 'unknown'\<close>; a response that is not ok,
  and every exception (the \<open>catch\<close>), set offline and unknown.
\<close>

definition checkApiHealth :: "health_body fetch_result \<Rightarrow> app_state \<Rightarrow> app_state" where
  "checkApiHealth r s =
     (case r of
        Rejected msg \<Rightarrow> s\<lparr>apiStatus := ''offline'', ocrApiStatus := ''unknown''\<rparr>
      | Resolved response \<Rightarrow>
          if ok response then
            (case json response of
               Inl msg \<Rightarrow> s\<lparr>apiStatus := ''offline'', ocrApiStatus := ''unknown''\<rparr>
             | Inr d \<Rightarrow>
                 s\<lparr>apiStatus := ''online'',
                   ocrApiStatus := js_or (ocr_api_status d) ''unknown''\<rparr>)
          else s\<lparr>apiStatus := ''offline'', ocrApiStatus := ''unknown''\<rparr>)"

subsection \<open>Choosing a file\<close>

text \<open>
  Both handlers look at the first file only: \<open>event.target.files[0]\<close> (undefined for
  an empty list, which takes the \<open>else\<close> branch) and \<open>files[0]\<close> of a drop with
  \<open>files.length > 0\<close> (an empty drop does nothing).
\<close>

definition handleFileUpload :: "File list \<Rightarrow> app_state \<Rightarrow> app_state" where
  "handleFileUpload files s =
     (case files of
        [] \<Rightarrow> s\<lparr>error := Some ''Please select a valid PDF file''\<rparr>
      | f # _ \<Rightarrow>
          if file_type f = ''application/pdf''
          then s\<lparr>selectedFile := Some f, error := None,
                 nodes := updateNodeData ''pdf'' [''fileName'' \<mapsto> JStr (file_name f)] (nodes s)\<rparr>
          else s\<lparr>error := Some ''Please select a valid PDF file''\<rparr>)"

definition handleDrop :: "File list \<Rightarrow> app_state \<Rightarrow> app_state" where
  "handleDrop files s =
     (if length files > 0 then
        (let f = hd files in
         if file_type f = ''application/pdf''
         then s\<lparr>selectedFile := Some f, error := None,
                nodes := updateNodeData ''pdf'' [''fileName'' \<mapsto> JStr (file_name f)] (nodes s)\<rparr>
         else s\<lparr>error := Some ''Please drop a valid PDF file''\<rparr>)
      else s)"

subsection \<open>Processing the selected file\<close>

text \<open>
  The success branch of \<open>processPDF\<close>: \<open>transformedResults\<close> is built from the
  body and stored, the processing node is marked completed, the output node is told it
  has results and the second edge is animated.
\<close>

definition showResults :: "process_body \<Rightarrow> ocr_result_obj \<Rightarrow> app_state \<Rightarrow> app_state" where
  "showResults d r s =
     (let transformedResults =
            \<lparr>result_text = extracted_text d, entities = ocr_entities r, tables = ocr_tables r\<rparr>;
          s1 = s\<lparr>results := Some transformedResults\<rparr>;
          s2 = s1\<lparr>nodes := updateNodeData ''processing''
                         [''status'' \<mapsto> JStr ''completed''] (nodes s1)\<rparr>;
          s3 = s2\<lparr>nodes := updateNodeData ''output''
                         [''hasResults'' \<mapsto> JBool True] (nodes s2)\<rparr>
      in s3\<lparr>edges := updateEdgeAnimation ''processing-output'' True (edges s3)\<rparr>)"

text \<open>
  The body of the \<open>try\<close> block of \<open>processPDF\<close>, after the request was sent: the
  result is \<open>Inl\<close> the message of the error thrown, or \<open>Inr\<close> the state at the end of
  the block.  Every \<open>throw\<close> comes before the first setter of the block (reading
  \<open>data.ocr_result.entities\<close> of a body without \<open>ocr_result\<close> throws while
  \<open>transformedResults\<close> is built), so an exception leaves the state as it was when
  the block was entered.
\<close>

definition tryBlock :: "process_body fetch_result \<Rightarrow> app_state \<Rightarrow> string + app_state" where
  "tryBlock r s =
     (case r of
        Rejected msg \<Rightarrow> Inl msg
      | Resolved response \<Rightarrow>
          if \<not> ok response then
            Inl (js_or (case json response of Inl msg \<Rightarrow> None | Inr errorData \<Rightarrow> detail errorData)
                       (''HTTP error! status: '' @ show_nat (status response)))
          else
            (case json response of
               Inl msg \<Rightarrow> Inl msg
             | Inr d \<Rightarrow>
                 if success d then
                   (case ocr_result d of
                      None \<Rightarrow> Inl typeErrorMessage
                    | Some res \<Rightarrow> Inr (showResults d res s))
                 else Inl (js_or (error_field d) ''Processing failed'')))"

text \<open>
  The three other pieces of \<open>processPDF\<close>: what it does between the guards and the
  \<open>try\<close> (the processing state is shown), its \<open>catch\<close> block and its \<open>finally\<close>
  block.
\<close>

definition showProcessing :: "app_state \<Rightarrow> app_state" where
  "showProcessing s =
     (let s1 = s\<lparr>isProcessing := True, error := None\<rparr>;
          s2 = s1\<lparr>nodes := updateNodeData ''processing''
                         [''status'' \<mapsto> JStr ''processing''] (nodes s1)\<rparr>
      in s2\<lparr>edges := updateEdgeAnimation ''pdf-processing'' True (edges s2)\<rparr>)"

definition catchBlock :: "string \<Rightarrow> app_state \<Rightarrow> app_state" where
  "catchBlock msg s = s\<lparr>error := Some (''Failed to process PDF: '' @ msg)\<rparr>"

definition finallyBlock :: "app_state \<Rightarrow> app_state" where
  "finallyBlock s =
     (let s1 = s\<lparr>isProcessing := False\<rparr>
      in s1\<lparr>edges := updateEdgeAnimation ''pdf-processing'' False (edges s1)\<rparr>)"

text \<open>
  \<open>processPDF\<close>: the two guards return before anything is sent; otherwise the file is
  posted to \<open>/process-pdf\<close>, the \<open>try\<close> block runs on the answer \<open>net\<close> gives, the
  \<open>catch\<close> stores the message and the \<open>finally\<close> block runs on both paths.  The
  second component is the list of requests sent.
\<close>

definition processPDF ::
    "(request \<Rightarrow> process_body fetch_result) \<Rightarrow> app_state \<Rightarrow> app_state \<times> request list" where
  "processPDF net s =
     (case selectedFile s of
        None \<Rightarrow> (s\<lparr>error := Some ''Please select a PDF file first''\<rparr>, [])
      | Some f \<Rightarrow>
          if apiStatus s = ''offline'' then
            (s\<lparr>error := Some (''FastAPI backend is offline. Please make sure the server ''
                               @ ''is running on port 8000.'')\<rparr>, [])
          else
            let s1 = showProcessing s;
                req = Post (API_BASE_URL @ ''/process-pdf'') f;
                s2 = (case tryBlock (net req) s1 of
                        Inr s' \<Rightarrow> s'
                      | Inl msg \<Rightarrow> catchBlock msg s1)
            in (finallyBlock s2, [req]))"

section \<open>The extraction-and-parsing pipeline (backend)\<close>

text \<open>
  The client posts the file to \<open>/process-pdf\<close>; the server behind that endpoint
  (\<open>backend/main.py\<close>) is not among the source files.  Every definition of this
  section is therefore written from the specification, sections 3 and 4, and says so.
  What the specification leaves open (the extractor, the OCR service and the textual
  convention of a structured block) is a field of the configuration.
\<close>

subsection \<open>Data\<close>

text \<open>Modelled from the spec: the error taxonomy of section 7 (hard errors of the
  pipeline); the backend's error type is missing.\<close>

datatype pipeline_error =
  DocumentCorrupt | ServiceUnavailable | ServiceTimeout | MalformedUpstreamResponse

text \<open>Modelled from the spec: the liveness state of HealthMonitor (section 4.7); the
  backend's monitor is missing.\<close>

datatype liveness = Online | Offline | Unknown

text \<open>Modelled from the spec: TextChunk of section 3; the backend's chunk type is
  missing.\<close>

record TextChunk =
  index :: nat
  content :: string
  charOffset :: nat

text \<open>Modelled from the spec: the tagged result of ResponseParser (section 9),
  \<open>Parsed(entities, tables)\<close> or \<open>Unparsed(rawText)\<close>; the backend's parser is
  missing.\<close>

datatype parse_result = Parsed EntitySet "Table list" | Unparsed string

text \<open>Modelled from the spec: ProcessingResult of section 3; the backend's result type
  is missing.  The fields \<open>entities\<close>, \<open>tables\<close> and \<open>success\<close> carry a prefix, since
  the client's records own these names.\<close>

record ProcessingResult =
  extractedText :: string
  pr_entities :: EntitySet
  pr_tables :: "Table list"
  pr_success :: bool
  errorMessage :: "string option"

text \<open>
  Modelled from the spec: the collaborators and the configuration of the pipeline
  (sections 4 and 6), which the missing backend would supply: TextExtractor on the
  bytes of the document; \<open>OCRClient.submit\<close> on a prompt, after its retry;
  the reader that locates the first well-formed structured block of a reply and decodes
  its fields, \<open>None\<close> when there is no such block; the state of HealthMonitor;
  \<open>maxChunkLength\<close>; and the fixed template of PromptBuilder.
\<close>

record pipeline_config =
  extractText :: "string \<Rightarrow> pipeline_error + string"
  ocrSubmit :: "string \<Rightarrow> pipeline_error + string"
  readBlock :: "string \<Rightarrow> (EntitySet \<times> Table list) option"
  healthState :: liveness
  maxChunkLength :: nat
  promptTemplate :: string

subsection \<open>ChunkPlanner\<close>

text \<open>Modelled from the spec: the whitespace at which ChunkPlanner prefers to split
  (section 4.2); the backend's planner is missing.  Space, tab, line feed and carriage
  return.\<close>

definition isWhitespace :: "char \<Rightarrow> bool" where
  "isWhitespace c \<longleftrightarrow> c = CHR '' '' \<or> c = CHR 0x09 \<or> c = CHR 0x0A \<or> c = CHR 0x0D"

text \<open>
  Modelled from the spec: the splitting policy of section 4.2 (the backend's planner is
  missing): the nearest whitespace boundary at or before the limit, which is the
  position after the last whitespace among the first \<open>L\<close> characters; when there is
  none, the hard split at the limit.
\<close>

definition cutPoint :: "nat \<Rightarrow> string \<Rightarrow> nat" where
  "cutPoint L t =
     (let k = length (dropWhile (\<lambda>c. \<not> isWhitespace c) (rev (take L t)))
      in if k = 0 then L else k)"

text \<open>
  Modelled from the spec: ChunkPlanner's split of the text into pieces of bounded
  length (section 4.2; the backend's planner is missing).  A text within the limit is
  one piece, the empty text none.  The specification does not say what a limit of 0
  means; no piece could hold a character, and the text is left whole.
\<close>

function splitText :: "nat \<Rightarrow> string \<Rightarrow> string list" where
  "splitText L t =
     (if t = [] then []
      else if L = 0 \<or> length t \<le> L then [t]
      else take (cutPoint L t) t # splitText L (drop (cutPoint L t) t))"
  by pat_completeness auto


termination splitText
proof (relation "measure (\<lambda>(L, t). length t)")
  show "wf (measure (\<lambda>(L, t). length t))"
    by simp
next
  fix L :: nat and t :: string
  assume "t \<noteq> []" and "\<not> (L = 0 \<or> length t \<le> L)"
  then have "0 < cutPoint L t"
    by (simp add: cutPoint_def Let_def)
  with \<open>t \<noteq> []\<close> show "((L, drop (cutPoint L t) t), (L, t)) \<in> measure (\<lambda>(L, t). length t)"
    by simp
qed

declare splitText.simps [simp del]

text \<open>
  Modelled from the spec: the rule of section 4.2 for a trailing sliver (the backend's
  planner is missing): a final piece shorter than a tenth of \<open>maxChunkLength\<close> is
  merged into the piece before it.
\<close>

definition mergeSliver :: "nat \<Rightarrow> string list \<Rightarrow> string list" where
  "mergeSliver L ps =
     (if 2 \<le> length ps \<and> 10 * length (last ps) < L
      then butlast (butlast ps) @ [last (butlast ps) @ last ps]
      else ps)"

text \<open>Modelled from the spec: the numbering of the pieces as TextChunk values (section
  3; the backend's planner is missing): the index counts from the given one, the offset
  is the number of characters before the piece.\<close>

fun numberChunks :: "nat \<Rightarrow> nat \<Rightarrow> string list \<Rightarrow> TextChunk list" where
  "numberChunks i off [] = []"
| "numberChunks i off (p # ps) =
     \<lparr>index = i, content = p, charOffset = off\<rparr> # numberChunks (Suc i) (off + length p) ps"

text \<open>Modelled from the spec: ChunkPlanner (section 4.2); the backend's planner is
  missing.\<close>

definition planChunks :: "nat \<Rightarrow> string \<Rightarrow> TextChunk list" where
  "planChunks L t = numberChunks 0 0 (mergeSliver L (splitText L t))"

subsection \<open>ResponseParser\<close>

text \<open>Modelled from the spec: the EntitySet invariant of section 3 (the backend's
  entity sets are missing): an entry is appended unless the field holds it already,
  compared as strings, so the order of first insertion is kept.\<close>

definition insertEntity :: "string \<Rightarrow> string list \<Rightarrow> string list" where
  "insertEntity x xs = (if x \<in> set xs then xs else xs @ [x])"

text \<open>Modelled from the spec: the union with de-duplication of one field (section
  4.6); the backend's merge is missing.\<close>

definition unionDedup :: "string list \<Rightarrow> string list \<Rightarrow> string list" where
  "unionDedup xs ys = fold insertEntity ys xs"

text \<open>Modelled from the spec: the empty EntitySet (section 4.5); the backend's entity
  sets are missing.\<close>

definition emptyEntitySet :: EntitySet where
  "emptyEntitySet = \<lparr>names = [], dates = [], addresses = []\<rparr>"

text \<open>Modelled from the spec: the union of two EntitySets, field by field (section
  4.6); the backend's merge is missing.\<close>

definition mergeEntitySets :: "EntitySet \<Rightarrow> EntitySet \<Rightarrow> EntitySet" where
  "mergeEntitySets a b =
     \<lparr>names = unionDedup (names a) (names b),
      dates = unionDedup (dates a) (dates b),
      addresses = unionDedup (addresses a) (addresses b)\<rparr>"

text \<open>
  Modelled from the spec: the Table invariant of section 3 (the backend's table
  normalization is missing): a row with fewer cells than \<open>headers\<close> is padded on the
  right with empty strings, a row with more cells is truncated.  The second component
  says whether the row was changed, which is what the data-quality note records.
\<close>

definition normalizeRow :: "nat \<Rightarrow> string list \<Rightarrow> string list \<times> bool" where
  "normalizeRow n row =
     (if length row < n then (row @ replicate (n - length row) [], True)
      else if n < length row then (take n row, True)
      else (row, False))"

text \<open>Modelled from the spec: the normalization of every row of a table (section 3),
  with the number of data-quality notes it logs; the backend's table normalization is
  missing.\<close>

definition normalizeTable :: "Table \<Rightarrow> Table \<times> nat" where
  "normalizeTable t =
     (let rs = map (normalizeRow (length (headers t))) (rows t)
      in (t\<lparr>rows := map fst rs\<rparr>, length (filter snd rs)))"

text \<open>
  Modelled from the spec: ResponseParser (section 4.5; the backend's parser is
  missing).  The fields of the block found are brought into the schema: each entity
  field without duplicates, each table with rows as long as its headers.  A reply with
  no well-formed block is kept as raw text and is not an error.
\<close>

definition parseReply :: "(string \<Rightarrow> (EntitySet \<times> Table list) option) \<Rightarrow> string \<Rightarrow> parse_result" where
  "parseReply rd reply =
     (case rd reply of
        None \<Rightarrow> Unparsed reply
      | Some (es, ts) \<Rightarrow>
          Parsed (mergeEntitySets emptyEntitySet es) (map (\<lambda>t. fst (normalizeTable t)) ts))"

text \<open>Modelled from the spec: the partial EntitySet and the tables of a chunk (section
  4.5), empty for a reply that was not parsed; the backend's parser is missing.\<close>

fun entitiesOf :: "parse_result \<Rightarrow> EntitySet" where
  "entitiesOf (Parsed es ts) = es"
| "entitiesOf (Unparsed raw) = emptyEntitySet"

fun tablesOf :: "parse_result \<Rightarrow> Table list" where
  "tablesOf (Parsed es ts) = ts"
| "tablesOf (Unparsed raw) = []"

subsection \<open>PipelineOrchestrator\<close>

text \<open>Modelled from the spec: PromptBuilder (section 4.3), a fixed template that embeds
  the chunk text; the backend's prompt is missing.\<close>

definition buildPrompt :: "pipeline_config \<Rightarrow> TextChunk \<Rightarrow> string" where
  "buildPrompt cfg c = promptTemplate cfg @ content c"

text \<open>Modelled from the spec: the submission of the chunks in order (sections 4.6 and
  5), where the terminal failure of any chunk fails the request; the backend's
  orchestrator is missing.\<close>

fun submitAll :: "(string \<Rightarrow> pipeline_error + string) \<Rightarrow> string list \<Rightarrow> pipeline_error + string list" where
  "submitAll sub [] = Inr []"
| "submitAll sub (p # ps) =
     (case sub p of
        Inl e \<Rightarrow> Inl e
      | Inr reply \<Rightarrow>
          (case submitAll sub ps of
             Inl e \<Rightarrow> Inl e
           | Inr replies \<Rightarrow> Inr (reply # replies)))"

text \<open>Modelled from the spec: the merge policy of section 4.6 (the backend's
  orchestrator is missing): entity sets are unioned with de-duplication and tables are
  concatenated, both in chunk order.\<close>

definition mergeEntities :: "parse_result list \<Rightarrow> EntitySet" where
  "mergeEntities rs = fold (\<lambda>r acc. mergeEntitySets acc (entitiesOf r)) rs emptyEntitySet"

definition mergeTables :: "parse_result list \<Rightarrow> Table list" where
  "mergeTables rs = concat (map tablesOf rs)"

text \<open>Modelled from the spec: the human-readable error of a failed request (section
  7), which the end-to-end scenarios of section 8 show as the name of the error; the
  backend's messages are missing.\<close>

fun errorText :: "pipeline_error \<Rightarrow> string" where
  "errorText DocumentCorrupt = ''DocumentCorrupt''"
| "errorText ServiceUnavailable = ''ServiceUnavailable''"
| "errorText ServiceTimeout = ''ServiceTimeout''"
| "errorText MalformedUpstreamResponse = ''MalformedUpstreamResponse''"

text \<open>Modelled from the spec: the result of a request that reached \<open>Failed\<close> (sections
  4.6 and 7); the backend's orchestrator is missing.\<close>

definition failedResult :: "pipeline_error \<Rightarrow> ProcessingResult" where
  "failedResult e =
     \<lparr>extractedText = [], pr_entities = emptyEntitySet, pr_tables = [], pr_success = False,
      errorMessage = Some (errorText e)\<rparr>"

text \<open>
  Modelled from the spec: PipelineOrchestrator (section 4.6; the backend's orchestrator
  is missing): extracting, chunking, the health gate before any submission, the
  submission of every chunk, parsing, merging.  Only extraction and transport can fail
  the request.
\<close>

definition processRequest :: "pipeline_config \<Rightarrow> string \<Rightarrow> ProcessingResult" where
  "processRequest cfg rawBytes =
     (case extractText cfg rawBytes of
        Inl e \<Rightarrow> failedResult e
      | Inr t \<Rightarrow>
          let chunks = planChunks (maxChunkLength cfg) t in
          if healthState cfg = Offline then failedResult ServiceUnavailable
          else
            (case submitAll (ocrSubmit cfg) (map (buildPrompt cfg) chunks) of
               Inl e \<Rightarrow> failedResult e
             | Inr replies \<Rightarrow>
                 let parsed = map (parseReply (readBlock cfg)) replies in
                 \<lparr>extractedText = concat (map content chunks),
                  pr_entities = mergeEntities parsed,
                  pr_tables = mergeTables parsed,
                  pr_success = True,
                  errorMessage = None\<rparr>))"

section \<open>Example inputs\<close>

text \<open>Concrete files, responses and states on which the theorems below are evaluated.\<close>

definition examplePdf :: File where
  "examplePdf = \<lparr>file_name = ''report.pdf'', file_type = ''application/pdf''\<rparr>"

definition exampleTxt :: File where
  "exampleTxt = \<lparr>file_name = ''notes.txt'', file_type = ''text/plain''\<rparr>"

text \<open>A \<open>/health\<close> response with status 200 and the given \<open>ocr_api_status\<close>.\<close>

definition healthReply :: "string option \<Rightarrow> health_body fetch_result" where
  "healthReply v = Resolved \<lparr>ok = True, status = 200,
       json = Inr \<lparr>health_status = Some ''healthy'', ocr_api_status = v\<rparr>\<rparr>"

text \<open>A backend that answers every request with status 200 and the given body.\<close>

definition processReply :: "process_body \<Rightarrow> request \<Rightarrow> process_body fetch_result" where
  "processReply d req = Resolved \<lparr>ok = True, status = 200, json = Inr d\<rparr>"

text \<open>A success that found nothing, and a failure.\<close>

definition emptySuccess :: process_body where
  "emptySuccess = \<lparr>success = True, extracted_text = Some '''',
     ocr_result = Some \<lparr>ocr_entities = \<lparr>names = [], dates = [], addresses = []\<rparr>,
                        ocr_tables = []\<rparr>,
     error_field = None, detail = None\<rparr>"

definition failureBody :: process_body where
  "failureBody = \<lparr>success = False, extracted_text = None, ocr_result = None,
     error_field = Some ''ServiceUnavailable'', detail = None\<rparr>"

text \<open>The state after the component was mounted, \<open>report.pdf\<close> was chosen and a health
  check was answered with the given \<open>ocr_api_status\<close>.\<close>

definition readyState :: "string option \<Rightarrow> app_state" where
  "readyState v = checkApiHealth (healthReply v) (handleFileUpload [examplePdf] initialState)"

text \<open>The state after \<open>report.pdf\<close> was chosen and the health check could not reach the
  backend.\<close>

definition offlineState :: app_state where
  "offlineState =
     checkApiHealth (Rejected ''Failed to fetch'') (handleFileUpload [examplePdf] initialState)"

text \<open>A pipeline whose extractor returns the bytes as text, whose OCR service answers
  every prompt with the prompt, and whose reader is given; the limit is 10 characters.\<close>

definition exampleConfig :: "(string \<Rightarrow> (EntitySet \<times> Table list) option) \<Rightarrow> pipeline_config" where
  "exampleConfig rd =
     \<lparr>extractText = Inr, ocrSubmit = Inr, readBlock = rd, healthState = Online,
      maxChunkLength = 10, promptTemplate = []\<rparr>"

text \<open>A reader that finds the same block in every reply: one name, and one table with
  a short row, a long row and a row of the right length.\<close>

definition johnSmithBlock :: "string \<Rightarrow> (EntitySet \<times> Table list) option" where
  "johnSmithBlock reply =
     Some (\<lparr>names = [''John Smith''], dates = [], addresses = []\<rparr>,
           [\<lparr>headers = [''a'', ''b''], rows = [[''1''], [''1'', ''2'', ''3''], [''x'', ''y'']]\<rparr>])"

text \<open>A reader that finds no block in any reply.\<close>

definition noBlock :: "string \<Rightarrow> (EntitySet \<times> Table list) option" where
  "noBlock reply = None"

definition exampleText :: string where
  "exampleText = ''hello world this is a test of it''"

section \<open>Properties of the client\<close>

declare show_nat.simps [simp del]

subsection \<open>The two list updates\<close>

lemma length_updateNodeData: "length (updateNodeData nodeId newData nds) = length nds"
  by (simp add: updateNodeData_def)

lemma length_updateEdgeAnimation: "length (updateEdgeAnimation edgeId anim eds) = length eds"
  by (simp add: updateEdgeAnimation_def)

lemma nth_updateNodeData:
  "i < length nds \<Longrightarrow>
     updateNodeData nodeId newData nds ! i =
       (if node_id (nds ! i) = nodeId then (nds ! i)\<lparr>data := data (nds ! i) ++ newData\<rparr>
        else nds ! i)"
  by (simp add: updateNodeData_def)

lemma nth_updateEdgeAnimation:
  "i < length eds \<Longrightarrow>
     updateEdgeAnimation edgeId anim eds ! i =
       (if edge_id (eds ! i) = edgeId then (eds ! i)\<lparr>animated := anim\<rparr> else eds ! i)"
  by (simp add: updateEdgeAnimation_def)

lemma ids_updateEdgeAnimation:
  "map edge_id (updateEdgeAnimation edgeId anim eds) = map edge_id eds"
  by (simp add: updateEdgeAnimation_def)

lemma off_updateEdgeAnimation:
  "\<forall>e \<in> set (updateEdgeAnimation edgeId False eds). edge_id e = edgeId \<longrightarrow> \<not> animated e"
  unfolding updateEdgeAnimation_def set_map ball_simps
  by simp

subsection \<open>The blocks of processPDF\<close>

lemma showResults_simps:
  "results (showResults d r s) =
     Some \<lparr>result_text = extracted_text d, entities = ocr_entities r, tables = ocr_tables r\<rparr>"
  "edges (showResults d r s) = updateEdgeAnimation ''processing-output'' True (edges s)"
  "nodes (showResults d r s) =
     updateNodeData ''output'' [''hasResults'' \<mapsto> JBool True]
       (updateNodeData ''processing'' [''status'' \<mapsto> JStr ''completed''] (nodes s))"
  "selectedFile (showResults d r s) = selectedFile s"
  "error (showResults d r s) = error s"
  "isProcessing (showResults d r s) = isProcessing s"
  "apiStatus (showResults d r s) = apiStatus s"
  "ocrApiStatus (showResults d r s) = ocrApiStatus s"
  by (simp_all add: showResults_def Let_def)

lemma showProcessing_simps:
  "edges (showProcessing s) = updateEdgeAnimation ''pdf-processing'' True (edges s)"
  "nodes (showProcessing s) =
     updateNodeData ''processing'' [''status'' \<mapsto> JStr ''processing''] (nodes s)"
  "results (showProcessing s) = results s"
  "selectedFile (showProcessing s) = selectedFile s"
  "error (showProcessing s) = None"
  "isProcessing (showProcessing s) = True"
  "apiStatus (showProcessing s) = apiStatus s"
  "ocrApiStatus (showProcessing s) = ocrApiStatus s"
  by (simp_all add: showProcessing_def Let_def)

lemma catchBlock_simps:
  "edges (catchBlock msg s) = edges s"
  "nodes (catchBlock msg s) = nodes s"
  "results (catchBlock msg s) = results s"
  "selectedFile (catchBlock msg s) = selectedFile s"
  "error (catchBlock msg s) = Some (''Failed to process PDF: '' @ msg)"
  "isProcessing (catchBlock msg s) = isProcessing s"
  "apiStatus (catchBlock msg s) = apiStatus s"
  "ocrApiStatus (catchBlock msg s) = ocrApiStatus s"
  by (simp_all add: catchBlock_def)

lemma finallyBlock_simps:
  "edges (finallyBlock s) = updateEdgeAnimation ''pdf-processing'' False (edges s)"
  "nodes (finallyBlock s) = nodes s"
  "results (finallyBlock s) = results s"
  "selectedFile (finallyBlock s) = selectedFile s"
  "error (finallyBlock s) = error s"
  "isProcessing (finallyBlock s) = False"
  "apiStatus (finallyBlock s) = apiStatus s"
  "ocrApiStatus (finallyBlock s) = ocrApiStatus s"
  by (simp_all add: finallyBlock_def Let_def)

text \<open>The \<open>try\<close> block ends normally for exactly one kind of answer.\<close>

lemma tryBlock_Inr:
  "tryBlock r s = Inr s' \<longleftrightarrow>
     (\<exists>response d res. r = Resolved response \<and> ok response \<and> json response = Inr d \<and>
        success d \<and> ocr_result d = Some res \<and> s' = showResults d res s)"
  by (auto simp: tryBlock_def split: fetch_result.splits sum.splits option.splits)

lemma tryBlock_edge_ids:
  "tryBlock r s = Inr s' \<Longrightarrow> map edge_id (edges s') = map edge_id (edges s)"
  by (auto simp: tryBlock_Inr showResults_simps ids_updateEdgeAnimation)


text \<open>Past its guards, \<open>processPDF\<close> sends one request and runs the three blocks.\<close>

lemma processPDF_guarded:
  "selectedFile s = Some f \<Longrightarrow> apiStatus s \<noteq> ''offline'' \<Longrightarrow>
   processPDF net s =
     (finallyBlock
        (case tryBlock (net (Post (API_BASE_URL @ ''/process-pdf'') f)) (showProcessing s) of
           Inr s' \<Rightarrow> s' | Inl msg \<Rightarrow> catchBlock msg (showProcessing s)),
      [Post (API_BASE_URL @ ''/process-pdf'') f])"
  by (simp add: processPDF_def Let_def)

text \<open>The example state.\<close>

lemma readyState_simps:
  "selectedFile (readyState v) = Some examplePdf"
  "apiStatus (readyState v) = ''online''"
  "ocrApiStatus (readyState v) = js_or v ''unknown''"
  "edges (readyState v) = initialEdges"
  "results (readyState v) = None"
  "error (readyState v) = None"
  "isProcessing (readyState v) = False"
  by (simp_all add: readyState_def healthReply_def checkApiHealth_def handleFileUpload_def
      examplePdf_def initialState_def)

lemma offlineState_simps:
  "selectedFile offlineState = Some examplePdf"
  "apiStatus offlineState = ''offline''"
  "ocrApiStatus offlineState = ''unknown''"
  "results offlineState = None"
  by (simp_all add: offlineState_def checkApiHealth_def handleFileUpload_def
      examplePdf_def initialState_def)

section \<open>Properties of the pipeline\<close>

subsection \<open>ChunkPlanner\<close>

lemma concat_splitText: "concat (splitText L t) = t"
proof (induction L t rule: splitText.induct)
  case (1 L t)
  show ?case
  proof (cases "t = [] \<or> L = 0 \<or> length t \<le> L")
    case True
    then show ?thesis
      by (subst splitText.simps) auto
  next
    case False
    then have "concat (splitText L (drop (cutPoint L t) t)) = drop (cutPoint L t) t"
      using "1.IH" by simp
    with False show ?thesis
      by (subst splitText.simps) simp
  qed
qed

lemma concat_mergeSliver: "concat (mergeSliver L ps) = concat ps"
proof (cases "2 \<le> length ps \<and> 10 * length (last ps) < L")
  case True
  then have ne: "ps \<noteq> []" and ne': "butlast ps \<noteq> []"
    by (auto simp: length_greater_0_conv [symmetric] simp del: length_greater_0_conv)
  have "butlast (butlast ps) @ [last (butlast ps)] = butlast ps"
    using ne' by (rule append_butlast_last_id)
  moreover have "butlast ps @ [last ps] = ps"
    using ne by (rule append_butlast_last_id)
  ultimately have "ps = butlast (butlast ps) @ [last (butlast ps)] @ [last ps]"
    by (metis append_assoc)
  then have "concat ps = concat (butlast (butlast ps) @ [last (butlast ps)] @ [last ps])"
    by simp
  also have "\<dots> = concat (butlast (butlast ps) @ [last (butlast ps) @ last ps])"
    by simp
  finally show ?thesis
    using True by (simp add: mergeSliver_def)
next
  case False
  then have "mergeSliver L ps = ps"
    unfolding mergeSliver_def by (rule if_not_P)
  then show ?thesis
    by simp
qed

lemma content_numberChunks: "map content (numberChunks i off ps) = ps"
  by (induction ps arbitrary: i off) simp_all

lemma length_numberChunks: "length (numberChunks i off ps) = length ps"
  by (induction ps arbitrary: i off) simp_all

lemma index_numberChunks: "map index (numberChunks i off ps) = [i..<i + length ps]"
  by (induction ps arbitrary: i off) (simp_all add: upt_rec)

lemma offset_numberChunks:
  "k < length ps \<Longrightarrow>
     charOffset (numberChunks i off ps ! k) = off + length (concat (take k ps))"
proof (induction ps arbitrary: i off k)
  case Nil
  then show ?case by simp
next
  case (Cons p ps)
  then show ?case
    by (cases k) simp_all
qed

lemma concat_planChunks: "concat (map content (planChunks L t)) = t"
  by (simp add: planChunks_def content_numberChunks concat_mergeSliver concat_splitText)


subsection \<open>De-duplication\<close>

lemma remdups_skip: "y \<in> set bs \<Longrightarrow> remdups (as @ y # bs) = remdups (as @ bs)"
  by (induction as) auto

lemma fold_insertEntity:
  "distinct xs \<Longrightarrow> fold insertEntity ys xs = rev (remdups (rev (xs @ ys)))"
proof (induction ys arbitrary: xs)
  case Nil
  then show ?case
    by (simp add: distinct_remdups_id)
next
  case (Cons y ys)
  show ?case
  proof (cases "y \<in> set xs")
    case True
    then have "remdups (rev ys @ y # rev xs) = remdups (rev ys @ rev xs)"
      by (simp add: remdups_skip)
    with True Cons show ?thesis
      by (simp add: insertEntity_def)
  next
    case False
    then have "distinct (xs @ [y])"
      using Cons.prems by simp
    from Cons.IH [OF this] False show ?thesis
      by (simp add: insertEntity_def)
  qed
qed

lemma unionDedup_first_occurrences:
  "distinct xs \<Longrightarrow> unionDedup xs ys = rev (remdups (rev (xs @ ys)))"
  by (simp add: unionDedup_def fold_insertEntity)

lemma distinct_unionDedup: "distinct xs \<Longrightarrow> distinct (unionDedup xs ys)"
  by (simp add: unionDedup_first_occurrences)

lemma set_unionDedup: "distinct xs \<Longrightarrow> set (unionDedup xs ys) = set xs \<union> set ys"
  by (auto simp: unionDedup_first_occurrences)

lemma mergeEntities_fold:
  "distinct (names acc) \<Longrightarrow> distinct (dates acc) \<Longrightarrow> distinct (addresses acc) \<Longrightarrow>
   names (fold (\<lambda>r acc. mergeEntitySets acc (entitiesOf r)) rs acc)
     = rev (remdups (rev (names acc @ concat (map (\<lambda>r. names (entitiesOf r)) rs)))) \<and>
   dates (fold (\<lambda>r acc. mergeEntitySets acc (entitiesOf r)) rs acc)
     = rev (remdups (rev (dates acc @ concat (map (\<lambda>r. dates (entitiesOf r)) rs)))) \<and>
   addresses (fold (\<lambda>r acc. mergeEntitySets acc (entitiesOf r)) rs acc)
     = rev (remdups (rev (addresses acc @ concat (map (\<lambda>r. addresses (entitiesOf r)) rs))))"
proof (induction rs arbitrary: acc)
  case Nil
  then show ?case
    by (simp add: distinct_remdups_id)
next
  case (Cons r rs)
  let ?acc = "mergeEntitySets acc (entitiesOf r)"
  have n: "names ?acc = rev (remdups (rev (names acc @ names (entitiesOf r))))"
    and d: "dates ?acc = rev (remdups (rev (dates acc @ dates (entitiesOf r))))"
    and a: "addresses ?acc = rev (remdups (rev (addresses acc @ addresses (entitiesOf r))))"
    using Cons.prems by (simp_all add: mergeEntitySets_def unionDedup_first_occurrences)
  have dn: "distinct (names ?acc)" and dd: "distinct (dates ?acc)"
    and da: "distinct (addresses ?acc)"
    by (simp_all add: n d a)
  show ?case
    using Cons.IH [OF dn dd da] by (simp add: n d a remdups_append2)
qed

lemma mergeEntities_first_occurrences:
  "names (mergeEntities rs) = rev (remdups (rev (concat (map (\<lambda>r. names (entitiesOf r)) rs))))"
  "dates (mergeEntities rs) = rev (remdups (rev (concat (map (\<lambda>r. dates (entitiesOf r)) rs))))"
  "addresses (mergeEntities rs)
     = rev (remdups (rev (concat (map (\<lambda>r. addresses (entitiesOf r)) rs))))"
  using mergeEntities_fold [of emptyEntitySet rs]
  by (simp_all add: mergeEntities_def emptyEntitySet_def)

lemma distinct_mergeEntities:
  "distinct (names (mergeEntities rs))"
  "distinct (dates (mergeEntities rs))"
  "distinct (addresses (mergeEntities rs))"
  by (simp_all add: mergeEntities_first_occurrences)

lemma distinct_processRequest:
  "distinct (names (pr_entities (processRequest cfg b)))"
  "distinct (dates (pr_entities (processRequest cfg b)))"
  "distinct (addresses (pr_entities (processRequest cfg b)))"
  by (simp_all add: processRequest_def failedResult_def Let_def emptyEntitySet_def
      distinct_mergeEntities split: sum.splits)


lemma unionDedup_keeps_prefix: "\<exists>zs. fold insertEntity ys xs = xs @ zs"
proof (induction ys arbitrary: xs)
  case Nil
  then show ?case by simp
next
  case (Cons y ys)
  show ?case
  proof (cases "y \<in> set xs")
    case True
    then have i: "insertEntity y xs = xs"
      by (simp add: insertEntity_def)
    obtain zs where "fold insertEntity ys xs = xs @ zs"
      using Cons.IH [of xs] by blast
    then have "fold insertEntity (y # ys) xs = xs @ zs"
      by (simp add: i)
    then show ?thesis
      by blast
  next
    case False
    then have i: "insertEntity y xs = xs @ [y]"
      by (simp add: insertEntity_def)
    obtain zs where "fold insertEntity ys (xs @ [y]) = (xs @ [y]) @ zs"
      using Cons.IH [of "xs @ [y]"] by blast
    then have "fold insertEntity (y # ys) xs = xs @ ([y] @ zs)"
      by (simp add: i)
    then show ?thesis
      by blast
  qed
qed

lemma take_unionDedup: "take (length xs) (unionDedup xs ys) = xs"
  using unionDedup_keeps_prefix [of ys xs] by (auto simp: unionDedup_def)

subsection \<open>Tables\<close>

lemma length_normalizeRow: "length (fst (normalizeRow n row)) = n"
  by (simp add: normalizeRow_def)

lemma rows_normalizeTable:
  "\<forall>row \<in> set (rows (fst (normalizeTable t))). length row = length (headers (fst (normalizeTable t)))"
  by (simp add: normalizeTable_def Let_def length_normalizeRow)

lemma tablesOf_parseReply:
  "\<forall>t \<in> set (tablesOf (parseReply rd reply)). \<forall>row \<in> set (rows t). length row = length (headers t)"
  using rows_normalizeTable
  by (auto simp: parseReply_def split: option.splits)

lemma mergeTables_rows:
  "\<forall>t \<in> set (mergeTables (map (parseReply rd) replies)).
     \<forall>row \<in> set (rows t). length row = length (headers t)"
  using tablesOf_parseReply by (fastforce simp: mergeTables_def)

lemma processRequest_rows:
  "\<forall>t \<in> set (pr_tables (processRequest cfg b)). \<forall>row \<in> set (rows t). length row = length (headers t)"
proof (cases "extractText cfg b")
  case (Inl e)
  then show ?thesis
    by (simp add: processRequest_def failedResult_def)
next
  case (Inr t)
  show ?thesis
  proof (cases "healthState cfg = Offline")
    case True
    with Inr show ?thesis
      by (simp add: processRequest_def failedResult_def Let_def)
  next
    case False
    show ?thesis
    proof (cases "submitAll (ocrSubmit cfg) (map (buildPrompt cfg) (planChunks (maxChunkLength cfg) t))")
      case (Inl e)
      with Inr False show ?thesis
        by (simp add: processRequest_def failedResult_def Let_def)
    next
      case r: (Inr replies)
      have "pr_tables (processRequest cfg b) = mergeTables (map (parseReply (readBlock cfg)) replies)"
        using Inr False r by (simp add: processRequest_def Let_def)
      then show ?thesis
        using mergeTables_rows [of "readBlock cfg" replies] by simp
    qed
  qed
qed

subsection \<open>What decides the outcome\<close>

lemma submitAll_Inr:
  "(\<exists>replies. submitAll sub ps = Inr replies) \<longleftrightarrow> (\<forall>p \<in> set ps. \<exists>reply. sub p = Inr reply)"
proof (induction ps)
  case Nil
  then show ?case by simp
next
  case (Cons p ps)
  then show ?case
    by (cases "sub p"; cases "submitAll sub ps") auto
qed

lemma success_processRequest:
  "pr_success (processRequest cfg b) \<longleftrightarrow>
     (\<exists>t. extractText cfg b = Inr t \<and> healthState cfg \<noteq> Offline \<and>
          (\<forall>c \<in> set (planChunks (maxChunkLength cfg) t).
             \<exists>reply. ocrSubmit cfg (buildPrompt cfg c) = Inr reply))"
proof (cases "extractText cfg b")
  case (Inl e)
  then show ?thesis
    by (simp add: processRequest_def failedResult_def)
next
  case (Inr t)
  let ?ps = "map (buildPrompt cfg) (planChunks (maxChunkLength cfg) t)"
  have sub: "(\<exists>replies. submitAll (ocrSubmit cfg) ?ps = Inr replies) \<longleftrightarrow>
      (\<forall>c \<in> set (planChunks (maxChunkLength cfg) t).
             \<exists>reply. ocrSubmit cfg (buildPrompt cfg c) = Inr reply)"
    by (simp add: submitAll_Inr)
  show ?thesis
  proof (cases "healthState cfg = Offline")
    case True
    with Inr show ?thesis
      by (simp add: processRequest_def failedResult_def Let_def)
  next
    case False
    show ?thesis
    proof (cases "submitAll (ocrSubmit cfg) ?ps")
      case (Inl e)
      then have "\<not> (\<exists>replies. submitAll (ocrSubmit cfg) ?ps = Inr replies)"
        by simp
      with Inl Inr False sub show ?thesis
        by (simp add: processRequest_def failedResult_def Let_def)
    next
      case r: (Inr replies)
      then have "\<exists>replies. submitAll (ocrSubmit cfg) ?ps = Inr replies"
        by blast
      with r Inr False sub show ?thesis
        by (simp add: processRequest_def Let_def)
    qed
  qed
qed

lemma errorMessage_processRequest:
  "errorMessage (processRequest cfg b) = None \<longleftrightarrow> pr_success (processRequest cfg b)"
  by (simp add: processRequest_def failedResult_def Let_def split: sum.splits)

lemma mergeEntities_unparsed:
  "\<forall>r \<in> set rs. entitiesOf r = emptyEntitySet \<Longrightarrow> mergeEntities rs = emptyEntitySet"
proof -
  have e: "mergeEntitySets emptyEntitySet emptyEntitySet = emptyEntitySet"
    by (simp add: mergeEntitySets_def emptyEntitySet_def unionDedup_def)
  have "\<forall>r \<in> set rs. entitiesOf r = emptyEntitySet \<Longrightarrow>
      fold (\<lambda>r acc. mergeEntitySets acc (entitiesOf r)) rs emptyEntitySet = emptyEntitySet"
    by (induction rs) (simp_all add: e)
  then show "\<forall>r \<in> set rs. entitiesOf r = emptyEntitySet \<Longrightarrow> mergeEntities rs = emptyEntitySet"
    by (simp add: mergeEntities_def)
qed

lemma processRequest_no_blocks:
  assumes "pr_success (processRequest cfg b)" and "\<forall>reply. readBlock cfg reply = None"
  shows "pr_entities (processRequest cfg b) = emptyEntitySet \<and> pr_tables (processRequest cfg b) = []"
proof -
  obtain t where t: "extractText cfg b = Inr t" and h: "healthState cfg \<noteq> Offline"
    using assms(1) success_processRequest [of cfg b] by blast
  let ?ps = "map (buildPrompt cfg) (planChunks (maxChunkLength cfg) t)"
  obtain replies where r: "submitAll (ocrSubmit cfg) ?ps = Inr replies"
    using assms(1) t h by (cases "submitAll (ocrSubmit cfg) ?ps")
      (simp_all add: processRequest_def failedResult_def Let_def)
  have p: "parseReply (readBlock cfg) reply = Unparsed reply" for reply
    using assms(2) by (simp add: parseReply_def)
  have "mergeEntities (map (parseReply (readBlock cfg)) replies) = emptyEntitySet"
    by (rule mergeEntities_unparsed) (simp add: p)
  moreover have "mergeTables (map (parseReply (readBlock cfg)) replies) = []"
    by (simp add: mergeTables_def p)
  ultimately show ?thesis
    using t h r by (simp add: processRequest_def Let_def)
qed

lemma extractedText_processRequest:
  "pr_success (processRequest cfg b) \<Longrightarrow> extractText cfg b = Inr (extractedText (processRequest cfg b))"
  by (auto simp: processRequest_def failedResult_def Let_def concat_planChunks split: sum.splits if_splits)


subsection \<open>The example pipeline\<close>

lemma examplePlan:
  "planChunks 10 exampleText
     = [\<lparr>index = 0, content = ''hello '', charOffset = 0\<rparr>,
        \<lparr>index = 1, content = ''world '', charOffset = 6\<rparr>,
        \<lparr>index = 2, content = ''this is a '', charOffset = 12\<rparr>,
        \<lparr>index = 3, content = ''test of it'', charOffset = 22\<rparr>]"
proof -
  have "splitText 10 exampleText = [''hello '', ''world '', ''this is a '', ''test of it'']"
    by (simp add: exampleText_def splitText.simps cutPoint_def isWhitespace_def Let_def)
  then show ?thesis
    by (simp add: planChunks_def mergeSliver_def)
qed

lemma exampleConfig_simps:
  "extractText (exampleConfig rd) = Inr"
  "ocrSubmit (exampleConfig rd) = Inr"
  "readBlock (exampleConfig rd) = rd"
  "healthState (exampleConfig rd) = Online"
  "maxChunkLength (exampleConfig rd) = 10"
  "promptTemplate (exampleConfig rd) = []"
  by (simp_all add: exampleConfig_def)

lemma exampleReplies:
  "submitAll Inr (map (buildPrompt (exampleConfig rd)) (planChunks 10 exampleText))
     = Inr [''hello '', ''world '', ''this is a '', ''test of it'']"
  by (simp add: examplePlan buildPrompt_def exampleConfig_simps)

lemma exampleRequest:
  "processRequest (exampleConfig rd) exampleText =
     \<lparr>extractedText = exampleText,
      pr_entities = mergeEntities (map (parseReply rd)
                      [''hello '', ''world '', ''this is a '', ''test of it'']),
      pr_tables = mergeTables (map (parseReply rd)
                      [''hello '', ''world '', ''this is a '', ''test of it'']),
      pr_success = True, errorMessage = None\<rparr>"
  by (simp add: processRequest_def exampleConfig_simps exampleReplies Let_def concat_planChunks)

section \<open>The claims\<close>

text \<open>
  Claim C1.  A reply in which the reader finds no structured block is parsed to
  \<open>Unparsed\<close> with the raw reply kept, and gives the empty EntitySet and no tables.
  Whether a request succeeds is decided by extraction, the health gate and transport
  alone: it succeeds exactly when the text was extracted, the service is not known to
  be offline and every chunk's submission returned a reply.  So the outcome is the same
  for every reader, and when no reply of a successful request holds a block the result
  is a success with the extracted text, the empty EntitySet and no tables.
\<close>

theorem unparsed_reply_degrades:
  "(rd reply = None \<longrightarrow>
      parseReply rd reply = Unparsed reply \<and>
      entitiesOf (parseReply rd reply) = emptyEntitySet \<and>
      tablesOf (parseReply rd reply) = []) \<and>
   (pr_success (processRequest cfg b) \<longleftrightarrow>
      (\<exists>t. extractText cfg b = Inr t \<and> healthState cfg \<noteq> Offline \<and>
           (\<forall>c \<in> set (planChunks (maxChunkLength cfg) t).
              \<exists>reply. ocrSubmit cfg (buildPrompt cfg c) = Inr reply))) \<and>
   pr_success (processRequest (cfg\<lparr>readBlock := rd\<rparr>) b) = pr_success (processRequest cfg b) \<and>
   (pr_success (processRequest cfg b) \<longrightarrow>
      processRequest (cfg\<lparr>readBlock := \<lambda>reply. None\<rparr>) b =
        \<lparr>extractedText = extractedText (processRequest cfg b), pr_entities = emptyEntitySet,
         pr_tables = [], pr_success = True, errorMessage = None\<rparr>)"
proof -
  have a: "rd reply = None \<longrightarrow>
      parseReply rd reply = Unparsed reply \<and>
      entitiesOf (parseReply rd reply) = emptyEntitySet \<and>
      tablesOf (parseReply rd reply) = []"
    by (simp add: parseReply_def)
  have b: "pr_success (processRequest (cfg\<lparr>readBlock := rd\<rparr>) b) = pr_success (processRequest cfg b)"
    for rd
    by (simp add: success_processRequest buildPrompt_def)
  have c: "processRequest (cfg\<lparr>readBlock := \<lambda>reply. None\<rparr>) b =
        \<lparr>extractedText = extractedText (processRequest cfg b), pr_entities = emptyEntitySet,
         pr_tables = [], pr_success = True, errorMessage = None\<rparr>"
    if s: "pr_success (processRequest cfg b)"
  proof -
    let ?cfg = "cfg\<lparr>readBlock := \<lambda>reply. None\<rparr>"
    have s': "pr_success (processRequest ?cfg b)"
      using s by (simp add: b)
    have n: "\<forall>reply. readBlock ?cfg reply = None"
      by simp
    have e: "errorMessage (processRequest ?cfg b) = None"
      using s' by (simp add: errorMessage_processRequest)
    have "extractText cfg b = Inr (extractedText (processRequest ?cfg b))"
      using extractedText_processRequest [OF s'] by simp
    moreover have "extractText cfg b = Inr (extractedText (processRequest cfg b))"
      by (rule extractedText_processRequest [OF s])
    ultimately have t: "extractedText (processRequest ?cfg b) = extractedText (processRequest cfg b)"
      by simp
    show ?thesis
      using processRequest_no_blocks [OF s' n] s' e t
      by (intro ProcessingResult.equality) simp_all
  qed
  show ?thesis
    using a b c success_processRequest [of cfg b] by blast
qed

text \<open>Four chunks, four replies, no block in any of them.\<close>

theorem unparsed_reply_degrades_witness:
  "processRequest (exampleConfig noBlock) exampleText =
     \<lparr>extractedText = exampleText, pr_entities = emptyEntitySet, pr_tables = [],
      pr_success = True, errorMessage = None\<rparr> \<and>
   parseReply noBlock ''I could not find anything.'' = Unparsed ''I could not find anything.''"
proof -
  have s: "pr_success (processRequest (exampleConfig johnSmithBlock) exampleText)"
    by (simp add: exampleRequest)
  have c: "(exampleConfig johnSmithBlock)\<lparr>readBlock := \<lambda>reply. None\<rparr> = exampleConfig noBlock"
    by (simp add: exampleConfig_def noBlock_def fun_eq_iff)
  have n: "noBlock ''I could not find anything.'' = None"
    by (simp add: noBlock_def)
  show ?thesis
    using unparsed_reply_degrades [of noBlock "''I could not find anything.''"
        "exampleConfig johnSmithBlock" exampleText] s n
    by (simp add: c exampleRequest)
qed


text \<open>
  Claim C2.  For every text \<open>T\<close> and every chunk size \<open>L\<close>, the chunks of
  \<open>planChunks L T\<close>, joined in order, are \<open>T\<close>.  A chunk keeps the whitespace it was
  cut at, so rejoining is concatenation.  The indices count from 0, the offset of a
  chunk is the number of characters in the chunks before it, and the content of a chunk
  is the piece of \<open>T\<close> that starts at its offset: the chunks cover the text once, in
  order, and no character is lost or repeated.
\<close>

theorem planChunks_covers:
  "concat (map content (planChunks L T)) = T \<and>
   map index (planChunks L T) = [0..<length (planChunks L T)] \<and>
   (\<forall>k < length (planChunks L T).
      charOffset (planChunks L T ! k) = length (concat (map content (take k (planChunks L T)))) \<and>
      content (planChunks L T ! k) =
        take (length (content (planChunks L T ! k))) (drop (charOffset (planChunks L T ! k)) T))"
proof -
  define ps where "ps = mergeSliver L (splitText L T)"
  define cs where "cs = planChunks L T"
  have cs: "cs = numberChunks 0 0 ps"
    by (simp add: cs_def ps_def planChunks_def)
  have len: "length cs = length ps"
    by (simp add: cs length_numberChunks)
  have cont: "map content cs = ps"
    by (simp add: cs content_numberChunks)
  have all: "concat ps = T"
    by (simp add: ps_def concat_mergeSliver concat_splitText)
  have idx: "map index cs = [0..<length cs]"
    using index_numberChunks [of 0 0 ps] by (simp add: cs length_numberChunks)
  have each: "charOffset (cs ! k) = length (concat (map content (take k cs))) \<and>
      content (cs ! k) = take (length (content (cs ! k))) (drop (charOffset (cs ! k)) T)"
    if k: "k < length cs" for k
  proof -
    have k': "k < length ps"
      using k len by simp
    have off: "charOffset (cs ! k) = length (concat (take k ps))"
      using offset_numberChunks [OF k', of 0 0] by (simp add: cs)
    have tk: "map content (take k cs) = take k ps"
      unfolding cont [symmetric] by (rule take_map [symmetric])
    have ck: "content (cs ! k) = ps ! k"
      using k nth_map [of k cs content] by (simp add: cont)
    have "ps = take k ps @ ps ! k # drop (Suc k) ps"
      using k' by (rule id_take_nth_drop)
    then have "concat ps = concat (take k ps @ ps ! k # drop (Suc k) ps)"
      by simp
    then have "T = concat (take k ps) @ ps ! k @ concat (drop (Suc k) ps)"
      by (simp add: all)
    then have "drop (length (concat (take k ps))) T = ps ! k @ concat (drop (Suc k) ps)"
      by (metis append_eq_conv_conj)
    then have "take (length (ps ! k)) (drop (length (concat (take k ps))) T) = ps ! k"
      by simp
    then show ?thesis
      by (simp add: off tk ck)
  qed
  have "concat (map content cs) = T"
    by (simp add: cont all)
  moreover note idx
  moreover have "\<forall>k < length cs.
      charOffset (cs ! k) = length (concat (map content (take k cs))) \<and>
      content (cs ! k) = take (length (content (cs ! k))) (drop (charOffset (cs ! k)) T)"
    using each by blast
  ultimately show ?thesis
    unfolding cs_def by blast
qed

text \<open>A text cut at whitespace into four chunks, and a text whose last character alone
  would be a sliver, which is merged into the chunk before it.\<close>

theorem planChunks_covers_witness:
  "map content (planChunks 10 ''hello world this is a test of it'')
     = [''hello '', ''world '', ''this is a '', ''test of it''] \<and>
   map charOffset (planChunks 10 ''hello world this is a test of it'') = [0, 6, 12, 22] \<and>
   concat (map content (planChunks 10 ''hello world this is a test of it''))
     = ''hello world this is a test of it'' \<and>
   map index (planChunks 10 ''hello world this is a test of it'') = [0, 1, 2, 3] \<and>
   map content (planChunks 20 ''aaaaaaaaaaaaaaaaaaaab'') = [''aaaaaaaaaaaaaaaaaaaab'']"
proof -
  have s: "splitText 10 ''hello world this is a test of it''
      = [''hello '', ''world '', ''this is a '', ''test of it'']"
    by (simp add: splitText.simps cutPoint_def isWhitespace_def Let_def)
  have s2: "splitText 20 ''aaaaaaaaaaaaaaaaaaaab'' = [''aaaaaaaaaaaaaaaaaaaa'', ''b'']"
    by (simp add: splitText.simps cutPoint_def isWhitespace_def Let_def)
  have p: "planChunks 10 ''hello world this is a test of it''
     = [\<lparr>index = 0, content = ''hello '', charOffset = 0\<rparr>,
        \<lparr>index = 1, content = ''world '', charOffset = 6\<rparr>,
        \<lparr>index = 2, content = ''this is a '', charOffset = 12\<rparr>,
        \<lparr>index = 3, content = ''test of it'', charOffset = 22\<rparr>]"
    by (simp add: planChunks_def s mergeSliver_def)
  have p2: "planChunks 20 ''aaaaaaaaaaaaaaaaaaaab''
     = [\<lparr>index = 0, content = ''aaaaaaaaaaaaaaaaaaaab'', charOffset = 0\<rparr>]"
    by (simp add: planChunks_def s2 mergeSliver_def)
  show ?thesis
    using planChunks_covers [of 10 "''hello world this is a test of it''"]
      planChunks_covers [of 20 "''aaaaaaaaaaaaaaaaaaaab''"]
    by (simp add: p p2)
qed


text \<open>
  Claim C3.  The health state that \<open>processPDF\<close> consults is \<open>apiStatus\<close>, which
  \<open>checkApiHealth\<close> sets to offline when the \<open>/health\<close> request fails or is not ok.
  Whenever it is offline, starting the processing sends no request to the processing
  endpoint and ends in failure: \<open>processPDF\<close> returns at its guards, before anything is
  submitted, with an error message stored (that the backend is offline when a file is
  selected, that a file must be selected first otherwise) and nothing else changed.
\<close>

theorem processPDF_offline:
  assumes "apiStatus s = ''offline''"
  shows "snd (processPDF net s) = [] \<and>
         error (fst (processPDF net s)) =
           Some (case selectedFile s of
                   None \<Rightarrow> ''Please select a PDF file first''
                 | Some f \<Rightarrow> ''FastAPI backend is offline. Please make sure the server is running on port 8000.'') \<and>
         fst (processPDF net s) = s\<lparr>error := error (fst (processPDF net s))\<rparr>"
  using assms by (simp add: processPDF_def split: option.splits)

text \<open>From the state reached when the health check cannot reach the backend.\<close>

theorem processPDF_offline_witness:
  "apiStatus offlineState = ''offline'' \<and>
   snd (processPDF (processReply emptySuccess) offlineState) = [] \<and>
   error (fst (processPDF (processReply emptySuccess) offlineState))
     = Some ''FastAPI backend is offline. Please make sure the server is running on port 8000.'' \<and>
   results (fst (processPDF (processReply emptySuccess) offlineState)) = None"
proof -
  have a: "apiStatus offlineState = ''offline''"
    by (simp add: offlineState_simps)
  have "fst (processPDF (processReply emptySuccess) offlineState) = offlineState\<lparr>error := error (fst (processPDF (processReply emptySuccess) offlineState))\<rparr>"
    using processPDF_offline [OF a, of "processReply emptySuccess"] by blast
  then have "results (fst (processPDF (processReply emptySuccess) offlineState)) = results (offlineState\<lparr>error := error (fst (processPDF (processReply emptySuccess) offlineState))\<rparr>)"
    by (rule arg_cong)
  then have r: "results (fst (processPDF (processReply emptySuccess) offlineState)) = None"
    by (simp add: offlineState_simps)
  show ?thesis
    using a r processPDF_offline [OF a, of "processReply emptySuccess"]
    by (simp add: offlineState_simps)
qed



text \<open>
  Claim C5.  In the result of every request, no field of the EntitySet holds an entry
  twice; entries are compared as strings, so two spellings that differ in case are two
  entries.  Each field of a merge is the list of first occurrences, in order, of the
  entries the chunks gave, in chunk order, and merging a further chunk leaves the
  entries already there in their places.
\<close>

theorem merged_entities_distinct:
  "distinct (names (pr_entities (processRequest cfg b))) \<and>
   distinct (dates (pr_entities (processRequest cfg b))) \<and>
   distinct (addresses (pr_entities (processRequest cfg b))) \<and>
   names (mergeEntities rs)
     = rev (remdups (rev (concat (map (\<lambda>r. names (entitiesOf r)) rs)))) \<and>
   dates (mergeEntities rs)
     = rev (remdups (rev (concat (map (\<lambda>r. dates (entitiesOf r)) rs)))) \<and>
   addresses (mergeEntities rs)
     = rev (remdups (rev (concat (map (\<lambda>r. addresses (entitiesOf r)) rs)))) \<and>
   take (length (names a)) (names (mergeEntitySets a e)) = names a \<and>
   take (length (dates a)) (dates (mergeEntitySets a e)) = dates a \<and>
   take (length (addresses a)) (addresses (mergeEntitySets a e)) = addresses a"
  by (simp add: distinct_processRequest mergeEntities_first_occurrences
      mergeEntitySets_def take_unionDedup)

text \<open>Every chunk of a request yields John Smith, and the merged names hold it once; a
  name in another case is another entry, and the order is that of first insertion.\<close>

theorem merged_entities_distinct_witness:
  "names (pr_entities (processRequest (exampleConfig johnSmithBlock) exampleText))
     = [''John Smith''] \<and>
   names (mergeEntities
            [Parsed \<lparr>names = [''John Smith'', ''Ann''], dates = [], addresses = []\<rparr> [],
             Unparsed ''no block here'',
             Parsed \<lparr>names = [''john smith'', ''Ann'', ''John Smith''], dates = [],
                      addresses = []\<rparr> []])
     = [''John Smith'', ''Ann'', ''john smith'']"
  using merged_entities_distinct [of "exampleConfig johnSmithBlock" exampleText
      "map (parseReply johnSmithBlock) [''hello '', ''world '', ''this is a '', ''test of it'']"]
    merged_entities_distinct [of "exampleConfig johnSmithBlock" exampleText
      "[Parsed \<lparr>names = [''John Smith'', ''Ann''], dates = [], addresses = []\<rparr> [],
        Unparsed ''no block here'',
        Parsed \<lparr>names = [''john smith'', ''Ann'', ''John Smith''], dates = [],
                 addresses = []\<rparr> []]"]
  by (simp add: exampleRequest parseReply_def johnSmithBlock_def emptyEntitySet_def
      mergeEntitySets_def unionDedup_def insertEntity_def)

text \<open>
  Claim C6.  In the result of every request, every row of every table is as long as the
  table's headers.  A row shorter than the headers is padded on the right with empty
  strings, a longer row is cut to the length of the headers; the headers are kept and
  no row is dropped.  Whatever tables the reader finds, the request succeeds or fails as
  it would have without them.
\<close>

theorem rows_match_headers:
  "(\<forall>t \<in> set (pr_tables (processRequest cfg b)).
      \<forall>row \<in> set (rows t). length row = length (headers t)) \<and>
   fst (normalizeRow n row)
     = (if length row < n then row @ replicate (n - length row) [] else take n row) \<and>
   headers (fst (normalizeTable t)) = headers t \<and>
   length (rows (fst (normalizeTable t))) = length (rows t) \<and>
   pr_success (processRequest (cfg\<lparr>readBlock := rd\<rparr>) b) = pr_success (processRequest cfg b)"
  by (simp add: processRequest_rows normalizeRow_def normalizeTable_def Let_def
      success_processRequest buildPrompt_def)

text \<open>A table with a short row, a long row and a row of the right length.\<close>

theorem rows_match_headers_witness:
  "pr_tables (processRequest (exampleConfig johnSmithBlock) ''short text'')
     = [\<lparr>headers = [''a'', ''b''], rows = [[''1'', ''''], [''1'', ''2''], [''x'', ''y'']]\<rparr>] \<and>
   pr_success (processRequest (exampleConfig johnSmithBlock) ''short text'')"
proof -
  have p: "planChunks 10 ''short text'' = [\<lparr>index = 0, content = ''short text'', charOffset = 0\<rparr>]"
    by (simp add: planChunks_def splitText.simps mergeSliver_def)
  have "pr_tables (processRequest (exampleConfig johnSmithBlock) ''short text'')
     = [\<lparr>headers = [''a'', ''b''], rows = [[''1'', ''''], [''1'', ''2''], [''x'', ''y'']]\<rparr>]"
    by (simp add: processRequest_def exampleConfig_simps p buildPrompt_def Let_def
        mergeTables_def parseReply_def johnSmithBlock_def normalizeTable_def normalizeRow_def)
  moreover have "pr_success (processRequest (exampleConfig johnSmithBlock) ''short text'')"
    by (simp add: processRequest_def exampleConfig_simps p buildPrompt_def Let_def)
  ultimately show ?thesis
    using rows_match_headers [of "exampleConfig johnSmithBlock" "''short text''"]
    by simp
qed

text \<open>
  Claim C7, as amended.  Both handlers read the first file only.  When the file input
  gives no file, or a first file whose MIME type is not \<open>application/pdf\<close>,
  \<open>handleFileUpload\<close> stores its validation message and changes nothing else; when the
  first file of a drop has another MIME type, \<open>handleDrop\<close> stores its validation
  message and changes nothing else.  So the file is not accepted: \<open>selectedFile\<close> and
  the nodes are as before.  A first file that is a PDF becomes the selected file.
  Nothing is said of the later files of a drop.
\<close>

theorem upload_rejects_non_pdf:
  "(files = [] \<or> file_type (hd files) \<noteq> ''application/pdf'' \<longrightarrow>
      handleFileUpload files s = s\<lparr>error := Some ''Please select a valid PDF file''\<rparr>) \<and>
   (files \<noteq> [] \<and> file_type (hd files) \<noteq> ''application/pdf'' \<longrightarrow>
      handleDrop files s = s\<lparr>error := Some ''Please drop a valid PDF file''\<rparr>) \<and>
   (files \<noteq> [] \<and> file_type (hd files) = ''application/pdf'' \<longrightarrow>
      selectedFile (handleFileUpload files s) = Some (hd files) \<and>
      selectedFile (handleDrop files s) = Some (hd files))"
  by (cases files) (simp_all add: handleFileUpload_def handleDrop_def)

text \<open>A text file chosen in the file input, and dropped (first) with a PDF.\<close>

theorem upload_rejects_non_pdf_witness:
  "handleFileUpload [exampleTxt] initialState
     = initialState\<lparr>error := Some ''Please select a valid PDF file''\<rparr> \<and>
   handleDrop [exampleTxt, examplePdf] initialState
     = initialState\<lparr>error := Some ''Please drop a valid PDF file''\<rparr> \<and>
   selectedFile (handleDrop [exampleTxt, examplePdf] initialState) = None \<and>
   selectedFile (handleDrop [examplePdf] initialState) = Some examplePdf"
  using upload_rejects_non_pdf [of "[exampleTxt]" initialState]
    upload_rejects_non_pdf [of "[exampleTxt, examplePdf]" initialState]
    upload_rejects_non_pdf [of "[examplePdf]" initialState]
  by (simp add: exampleTxt_def examplePdf_def) (simp add: initialState_def)

text \<open>
  The claim as stated covers every file that is dropped.  When a PDF and a text file
  are dropped together, the PDF first, the text file is a dropped file whose type is
  not \<open>application/pdf\<close>, and no message is shown for it: \<open>error\<close> is cleared, even
  when a message was showing.
\<close>

theorem drop_second_file_counterexample:
  "file_type exampleTxt \<noteq> ''application/pdf'' \<and>
   exampleTxt \<in> set [examplePdf, exampleTxt] \<and>
   error (handleDrop [examplePdf, exampleTxt] initialState) = None \<and>
   error (handleDrop [examplePdf, exampleTxt]
            (initialState\<lparr>error := Some ''Please drop a valid PDF file''\<rparr>)) = None"
  by (simp add: handleDrop_def examplePdf_def exampleTxt_def initialState_def)

text \<open>
  Claim C8, as amended.  \<open>ocrApiStatus\<close> is unknown when the component is mounted.
  After a health check it is unknown exactly when the request was rejected, or the
  response was not ok, or its body did not decode, or the body's \<open>ocr_api_status\<close> is
  absent, is the empty string, or is itself the string unknown.  In every other case
  the response is ok and \<open>ocrApiStatus\<close> is the \<open>ocr_api_status\<close> of its body.
\<close>

theorem ocrApiStatus_unknown:
  "ocrApiStatus initialState = ''unknown'' \<and>
   (ocrApiStatus (checkApiHealth r s) = ''unknown'' \<longleftrightarrow>
      (case r of
         Rejected msg \<Rightarrow> True
       | Resolved response \<Rightarrow>
           \<not> ok response \<or>
           (case json response of
              Inl msg \<Rightarrow> True
            | Inr d \<Rightarrow> ocr_api_status d \<in> {None, Some '''', Some ''unknown''}))) \<and>
   (\<forall>response d v.
      r = Resolved response \<and> ok response \<and> json response = Inr d \<and>
      ocr_api_status d = Some v \<and> v \<noteq> '''' \<longrightarrow>
      ocrApiStatus (checkApiHealth r s) = v)"
  by (auto simp: initialState_def checkApiHealth_def js_or_def
      split: fetch_result.splits sum.splits option.splits)

text \<open>Online and offline are mirrored; an absent field and a failed request (even after
  an earlier check that said online) give unknown.\<close>

theorem ocrApiStatus_unknown_witness:
  "ocrApiStatus (checkApiHealth (healthReply (Some ''online'')) initialState) = ''online'' \<and>
   ocrApiStatus (checkApiHealth (healthReply (Some ''offline'')) initialState) = ''offline'' \<and>
   ocrApiStatus (checkApiHealth (healthReply None) initialState) = ''unknown'' \<and>
   ocrApiStatus (checkApiHealth (Rejected ''Failed to fetch'')
                   (checkApiHealth (healthReply (Some ''online'')) initialState)) = ''unknown''"
  using ocrApiStatus_unknown [of "healthReply (Some ''online'')" initialState]
    ocrApiStatus_unknown [of "healthReply (Some ''offline'')" initialState]
    ocrApiStatus_unknown [of "healthReply None" initialState]
    ocrApiStatus_unknown [of "Rejected ''Failed to fetch''"
      "checkApiHealth (healthReply (Some ''online'')) initialState"]
  by (simp add: healthReply_def)

text \<open>
  The claim as stated lists three cases and says there are no others.  A health check
  that completes with an ok response whose body does carry \<open>ocr_api_status\<close> is none
  of the three, and it shows unknown when the field is the empty string (which is not
  mirrored either) and when the field is the string unknown.
\<close>

theorem ocrApiStatus_unknown_counterexample:
  "ocrApiStatus
     (checkApiHealth
        (Resolved \<lparr>ok = True, status = 200,
                   json = Inr \<lparr>health_status = Some ''healthy'', ocr_api_status = Some ''''\<rparr>\<rparr>)
        initialState) = ''unknown'' \<and>
   ocrApiStatus
     (checkApiHealth
        (Resolved \<lparr>ok = True, status = 200,
                   json = Inr \<lparr>health_status = Some ''healthy'',
                               ocr_api_status = Some ''unknown''\<rparr>\<rparr>)
        initialState) = ''unknown''"
  by (simp add: checkApiHealth_def js_or_def)

text \<open>
  Claim C9.  \<open>updateNodeData nodeId newData\<close> and \<open>updateEdgeAnimation edgeId animated\<close>
  keep the length and the order of the list and change only the elements whose id
  matches.  A matching node keeps its id, type and position, and its data is the old
  data overridden by \<open>newData\<close>: a property of \<open>newData\<close> has the new value, every
  other property its old one.  A matching edge is the old edge with the new
  \<open>animated\<close> flag.  Every element whose id does not match is returned as it was.
\<close>

theorem update_frame:
  "length (updateNodeData nodeId newData nds) = length nds \<and>
   length (updateEdgeAnimation edgeId anim eds) = length eds \<and>
   (\<forall>i < length nds.
      let n = nds ! i; n' = updateNodeData nodeId newData nds ! i in
      if node_id n = nodeId
      then node_id n' = node_id n \<and> node_type n' = node_type n \<and> position n' = position n \<and>
           (\<forall>k. data n' k = (case newData k of Some v \<Rightarrow> Some v | None \<Rightarrow> data n k))
      else n' = n) \<and>
   (\<forall>i < length eds.
      let e = eds ! i; e' = updateEdgeAnimation edgeId anim eds ! i in
      if edge_id e = edgeId
      then e' = e\<lparr>animated := anim\<rparr>
      else e' = e)"
  by (auto simp: nth_updateNodeData nth_updateEdgeAnimation length_updateNodeData
      length_updateEdgeAnimation Let_def map_add_def)

theorem update_frame_witness:
  "updateNodeData ''pdf'' [''fileName'' \<mapsto> JStr ''a.pdf''] initialNodes ! 1 = initialNodes ! 1 \<and>
   data (updateNodeData ''processing'' [''note'' \<mapsto> JNull] initialNodes ! 1) ''status''
     = Some (JStr ''idle'') \<and>
   data (updateNodeData ''processing'' [''note'' \<mapsto> JNull] initialNodes ! 1) ''note''
     = Some JNull \<and>
   updateEdgeAnimation ''pdf-processing'' True initialEdges ! 0
     = (initialEdges ! 0)\<lparr>animated := True\<rparr> \<and>
   updateEdgeAnimation ''pdf-processing'' True initialEdges ! 1 = initialEdges ! 1"
  using update_frame [of "''pdf''" "[''fileName'' \<mapsto> JStr ''a.pdf'']" initialNodes
      "''pdf-processing''" True initialEdges]
    update_frame [of "''processing''" "[''note'' \<mapsto> JNull]" initialNodes
      "''pdf-processing''" True initialEdges]
  by (simp add: initialNodes_def initialEdges_def Let_def)

text \<open>
  Claim C10.  When a file is selected and \<open>apiStatus\<close> is not offline, \<open>processPDF\<close>
  ends, however the request is answered (a rejected fetch, a response that is not ok, a
  body that is not JSON, a failure body, a success), in a state where \<open>isProcessing\<close>
  is false and no edge with id \<open>pdf-processing\<close> is animated; the edges are the same
  edges, in the same order, as before the call.
\<close>

theorem processPDF_finally:
  assumes "selectedFile s = Some f" and "apiStatus s \<noteq> ''offline''"
  shows "\<not> isProcessing (fst (processPDF net s)) \<and>
         (\<forall>e \<in> set (edges (fst (processPDF net s))).
            edge_id e = ''pdf-processing'' \<longrightarrow> \<not> animated e) \<and>
         map edge_id (edges (fst (processPDF net s))) = map edge_id (edges s)"
proof -
  define s1 where "s1 = showProcessing s"
  define r where "r = tryBlock (net (Post (API_BASE_URL @ ''/process-pdf'') f)) s1"
  define s2 where "s2 = (case r of Inr s' \<Rightarrow> s' | Inl msg \<Rightarrow> catchBlock msg s1)"
  have p: "fst (processPDF net s) = finallyBlock s2"
    unfolding s2_def r_def s1_def by (simp add: processPDF_guarded [OF assms])
  have e1: "map edge_id (edges s1) = map edge_id (edges s)"
    unfolding s1_def by (simp add: showProcessing_simps ids_updateEdgeAnimation)
  have "map edge_id (edges s2) = map edge_id (edges s1)"
  proof (cases r)
    case (Inl msg)
    then show ?thesis
      unfolding s2_def by (simp add: catchBlock_simps)
  next
    case (Inr s')
    then have "tryBlock (net (Post (API_BASE_URL @ ''/process-pdf'') f)) s1 = Inr s'"
      by (simp add: r_def)
    from tryBlock_edge_ids [OF this] Inr show ?thesis
      unfolding s2_def by simp
  qed
  with e1 have ids: "map edge_id (edges s2) = map edge_id (edges s)"
    by simp
  have a: "\<not> isProcessing (finallyBlock s2)"
    by (simp add: finallyBlock_simps)
  have b: "\<forall>e \<in> set (edges (finallyBlock s2)).
            edge_id e = ''pdf-processing'' \<longrightarrow> \<not> animated e"
    unfolding finallyBlock_simps by (rule off_updateEdgeAnimation)
  have c: "map edge_id (edges (finallyBlock s2)) = map edge_id (edges s)"
    unfolding finallyBlock_simps ids_updateEdgeAnimation by (rule ids)
  show ?thesis
    unfolding p using a b c by blast
qed

text \<open>The success path and the error path, from the example state: processing is over,
  the first edge is still, and only a success animates the second edge.\<close>

theorem processPDF_finally_witness:
  "\<not> isProcessing (fst (processPDF (processReply emptySuccess) (readyState (Some ''online'')))) \<and>
   \<not> isProcessing (fst (processPDF (processReply failureBody) (readyState (Some ''online'')))) \<and>
   map animated (edges (fst (processPDF (processReply emptySuccess) (readyState (Some ''online'')))))
     = [False, True] \<and>
   map animated (edges (fst (processPDF (processReply failureBody) (readyState (Some ''online'')))))
     = [False, False]"
proof -
  have f: "selectedFile (readyState (Some ''online'')) = Some examplePdf"
    by (simp add: readyState_simps)
  have a: "apiStatus (readyState (Some ''online'')) \<noteq> ''offline''"
    by (simp add: readyState_simps)
  show ?thesis
    using processPDF_finally [OF f a, of "processReply emptySuccess"]
      processPDF_finally [OF f a, of "processReply failureBody"]
    by (simp add: processPDF_guarded [OF f a] tryBlock_def processReply_def emptySuccess_def
        failureBody_def js_or_def finallyBlock_simps showResults_simps catchBlock_simps
        showProcessing_simps readyState_simps initialEdges_def updateEdgeAnimation_def)
qed

end
